theory Spec2Isabelle
  imports Complex_Main
begin

section \<open>JavaScript values\<close>

text \<open>
  The adapter facade is JavaScript: a criteria argument may be any value. A number is
  a double; the model keeps the three special values apart and carries a finite number
  as the exact rational it denotes (rounding to the nearest double is outside the
  model, and minus zero is identified with zero). A plain object is an association
  list in insertion order, which is the order \<open>for .. in\<close> and \<open>_.keys\<close> enumerate
  (property names that are array indices are not reordered here). An array hole is
  a \<open>JUndefined\<close> element. A function is opaque and carried by a number.
\<close>

datatype jsnum = NaN | PosInf | NegInf | Fin rat

datatype jsval =
    JUndefined
  | JNull
  | JBool bool
  | JNum jsnum
  | JStr string
  | JArr "jsval list"
  | JObj "(string \<times> jsval) list"
  | JFun nat
  | JDate jsnum

text \<open>\<open>ToBoolean\<close>: what \<open>!x\<close>, \<open>x ? a : b\<close> and \<open>x && y\<close> test.\<close>

fun truthy :: "jsval \<Rightarrow> bool" where
  "truthy JUndefined = False"
| "truthy JNull = False"
| "truthy (JBool b) = b"
| "truthy (JNum NaN) = False"
| "truthy (JNum (Fin q)) = (q \<noteq> 0)"
| "truthy (JNum _) = True"
| "truthy (JStr s) = (s \<noteq> [])"
| "truthy _ = True"

text \<open>
  Reading a property \<open>o.k\<close> for the names the facade reads (\<open>where\<close>, \<open>limit\<close>,
  \<open>skip\<close>, \<open>offset\<close>, \<open>order\<close>, \<open>sort\<close> and attribute names): an own property of a
  plain object, \<open>undefined\<close> otherwise. Assignment \<open>o.k = v\<close> keeps the position of
  an existing key and appends a new one.
\<close>

fun get :: "jsval \<Rightarrow> string \<Rightarrow> jsval" where
  "get (JObj kvs) k = (case map_of kvs k of Some v \<Rightarrow> v | None \<Rightarrow> JUndefined)"
| "get _ k = JUndefined"

fun put :: "(string \<times> jsval) list \<Rightarrow> string \<Rightarrow> jsval \<Rightarrow> (string \<times> jsval) list" where
  "put [] k v = [(k, v)]"
| "put ((k', v') # kvs) k v = (if k' = k then (k, v) # kvs else (k', v') # put kvs k v)"

subsection \<open>ToNumber\<close>

text \<open>
  The unary \<open>+\<close> of the source is \<open>ToNumber\<close>. On a string it reads a
  \<open>StringNumericLiteral\<close> (ECMAScript 5, 9.3.1): optional white space around an
  optionally signed decimal literal, \<open>Infinity\<close>, or an unsigned hexadecimal integer;
  the empty string is 0 and anything else is \<open>NaN\<close>. Characters are Latin-1 code units.
\<close>

definition is_ws :: "char \<Rightarrow> bool" where
  "is_ws c = (of_char c \<in> {9, 10, 11, 12, 13, 32, 160 :: nat})"

definition is_digit :: "char \<Rightarrow> bool" where
  "is_digit c = (48 \<le> (of_char c :: nat) \<and> (of_char c :: nat) \<le> 57)"

definition digit_val :: "char \<Rightarrow> nat" where
  "digit_val c = of_char c - 48"

definition hex_val :: "char \<Rightarrow> nat option" where
  "hex_val c =
     (let n = (of_char c :: nat) in
      if 48 \<le> n \<and> n \<le> 57 then Some (n - 48)
      else if 65 \<le> n \<and> n \<le> 70 then Some (n - 55)
      else if 97 \<le> n \<and> n \<le> 102 then Some (n - 87)
      else None)"

definition trim :: "string \<Rightarrow> string" where
  "trim s = rev (dropWhile is_ws (rev (dropWhile is_ws s)))"

definition dec_value :: "string \<Rightarrow> nat" where
  "dec_value ds = foldl (\<lambda>a c. 10 * a + digit_val c) 0 ds"

definition hex_value :: "string \<Rightarrow> nat" where
  "hex_value ds = foldl (\<lambda>a c. 16 * a + (case hex_val c of Some d \<Rightarrow> d | None \<Rightarrow> 0)) 0 ds"

text \<open>The exponent part: absent (0), or \<open>e\<close>/\<open>E\<close>, an optional sign and digits.\<close>

definition exponent_part :: "string \<Rightarrow> int option" where
  "exponent_part s =
     (case s of
        [] \<Rightarrow> Some 0
      | c # t \<Rightarrow>
          if c = CHR ''e'' \<or> c = CHR ''E'' then
            (let (neg, ds) =
               (case t of
                  d # u \<Rightarrow> if d = CHR ''-'' then (True, u)
                           else if d = CHR ''+'' then (False, u) else (False, t)
                | [] \<Rightarrow> (False, t))
             in if ds \<noteq> [] \<and> list_all is_digit ds
                then Some (if neg then - int (dec_value ds) else int (dec_value ds))
                else None)
          else None)"

definition pow10 :: "int \<Rightarrow> rat" where
  "pow10 e = (if 0 \<le> e then 10 ^ nat e else 1 / 10 ^ nat (- e))"

definition unsigned_decimal :: "string \<Rightarrow> jsnum" where
  "unsigned_decimal s =
     (if s = ''Infinity'' then PosInf
      else
        let ip = takeWhile is_digit s;
            r1 = dropWhile is_digit s;
            (fp, r2) =
              (case r1 of
                 c # t \<Rightarrow> if c = CHR ''.'' then (takeWhile is_digit t, dropWhile is_digit t)
                          else ([], r1)
               | [] \<Rightarrow> ([], r1))
        in if ip = [] \<and> fp = [] then NaN
           else (case exponent_part r2 of
                   None \<Rightarrow> NaN
                 | Some e \<Rightarrow>
                     Fin ((of_nat (dec_value ip) + of_nat (dec_value fp) / 10 ^ length fp)
                          * pow10 e)))"

definition negate :: "jsnum \<Rightarrow> jsnum" where
  "negate n = (case n of NaN \<Rightarrow> NaN | PosInf \<Rightarrow> NegInf | NegInf \<Rightarrow> PosInf | Fin q \<Rightarrow> Fin (- q))"

definition str_to_num :: "string \<Rightarrow> jsnum" where
  "str_to_num s =
     (let t = trim s in
      case t of
        [] \<Rightarrow> Fin 0
      | c # u \<Rightarrow>
          if c = CHR ''0'' \<and> u \<noteq> [] \<and> (hd u = CHR ''x'' \<or> hd u = CHR ''X'') then
            (if tl u \<noteq> [] \<and> list_all (\<lambda>d. hex_val d \<noteq> None) (tl u)
             then Fin (of_nat (hex_value (tl u))) else NaN)
          else if c = CHR ''+'' then unsigned_decimal u
          else if c = CHR ''-'' then negate (unsigned_decimal u)
          else unsigned_decimal t)"

text \<open>
  On the other values: \<open>undefined\<close> is \<open>NaN\<close>, \<open>null\<close> is 0, a boolean is 0 or 1, a
  date is its time value. An array goes through \<open>join(",")\<close>: the empty array is the
  empty string, a one-element array is its element as a string (\<open>null\<close> and
  \<open>undefined\<close> print as the empty string, a number prints so that it reads back as
  itself), and two or more elements give a string with a comma, which is no number.
  A plain object and a function print as text that is no number.
\<close>

fun toNumber :: "jsval \<Rightarrow> jsnum" where
  "toNumber JUndefined = NaN"
| "toNumber JNull = Fin 0"
| "toNumber (JBool b) = (if b then Fin 1 else Fin 0)"
| "toNumber (JNum n) = n"
| "toNumber (JStr s) = str_to_num s"
| "toNumber (JDate t) = t"
| "toNumber (JArr []) = Fin 0"
| "toNumber (JArr [JUndefined]) = Fin 0"
| "toNumber (JArr [JNull]) = Fin 0"
| "toNumber (JArr [JNum n]) = n"
| "toNumber (JArr [JStr s]) = str_to_num s"
| "toNumber (JArr [JArr ys]) = toNumber (JArr ys)"
| "toNumber (JArr _) = NaN"
| "toNumber (JObj _) = NaN"
| "toNumber (JFun _) = NaN"

text \<open>
  \<open>x > 0\<close> on a number, and \<open>Math.pow(x, 2) > 0\<close>: the square of an infinity is
  \<open>Infinity\<close>, the square of \<open>NaN\<close> is \<open>NaN\<close> (every comparison with it is false),
  and the square of a finite double is positive unless it rounds to zero, which it
  does exactly when it is at most half the least positive double, \<open>2^-1075\<close>.
\<close>

fun positive :: "jsnum \<Rightarrow> bool" where
  "positive NaN = False"
| "positive PosInf = True"
| "positive NegInf = False"
| "positive (Fin q) = (0 < q)"

fun square_positive :: "jsnum \<Rightarrow> bool" where
  "square_positive NaN = False"
| "square_positive PosInf = True"
| "square_positive NegInf = True"
| "square_positive (Fin q) = (1 / 2 ^ 1075 < q * q)"

text \<open>Underscore's type tests.\<close>

fun isObject :: "jsval \<Rightarrow> bool" where
  "isObject (JArr _) = True"
| "isObject (JObj _) = True"
| "isObject (JFun _) = True"
| "isObject (JDate _) = True"
| "isObject _ = False"

fun isString :: "jsval \<Rightarrow> bool" where
  "isString (JStr _) = True"
| "isString _ = False"

text \<open>\<open>_.isFinite\<close>: a number that is neither \<open>NaN\<close> nor an infinity.\<close>

fun isFinite :: "jsval \<Rightarrow> bool" where
  "isFinite (JNum (Fin _)) = True"
| "isFinite _ = False"

section \<open>The criteria normalizer\<close>

text \<open>
  \<open>normalizeCriteria\<close> either returns a criterion, or returns the string
  \<open>'Invalid options/criteria :: ' + criteria\<close> (the callers test \<open>_.isString\<close> on the
  result), or throws. The model keeps the three apart; \<open>Invalid_criteria c\<close> stands for
  the returned error string built from \<open>c\<close>.
\<close>

datatype js_exception =
    TypeError string
  | ReferenceError string
  | Error string
  | Thrown jsval

datatype criteria_result =
    Criterion jsval
  | Invalid_criteria jsval
  | Raise js_exception

text \<open>
  \<open>_.each(criteria, function(val, key) { if (_.isUndefined(val)) delete criteria[key]; })\<close>:
  on a plain object the own properties holding \<open>undefined\<close> are deleted; a deleted
  array element is a hole, which reads as \<open>undefined\<close> again; a string's characters
  are never \<open>undefined\<close>; the other values have nothing to enumerate. (Underscore walks
  an object that has a numeric \<open>length\<close> property by index; such objects are read here
  as plain objects.)
\<close>

fun strip_undefined :: "jsval \<Rightarrow> jsval" where
  "strip_undefined (JObj kvs) = JObj (filter (\<lambda>kv. snd kv \<noteq> JUndefined) kvs)"
| "strip_undefined v = v"

text \<open>
  The loop over \<open>criteria.where\<close>: \<open>for .. in\<close> enumerates the keys of a plain object
  and the indices of an array; on \<open>undefined\<close>, \<open>null\<close>, a number, a boolean, a
  function or a date it enumerates nothing, and on a string the assignment to an index
  is ignored.
\<close>

definition number_or_same :: "jsval \<Rightarrow> jsval" where
  "number_or_same v = (if square_positive (toNumber v) then JNum (toNumber v) else v)"

fun numberize :: "jsval \<Rightarrow> jsval" where
  "numberize (JObj kvs) = JObj (map (\<lambda>kv. (fst kv, number_or_same (snd kv))) kvs)"
| "numberize (JArr xs) = JArr (map number_or_same xs)"
| "numberize w = w"

fun numberize_where :: "jsval \<Rightarrow> jsval" where
  "numberize_where (JObj kvs) =
     (case map_of kvs ''where'' of
        None \<Rightarrow> JObj kvs
      | Some w \<Rightarrow> JObj (put kvs ''where'' (numberize w)))"
| "numberize_where c = c"

text \<open>
  \<open>_.str.words\<close> of underscore.string: the maximal runs of characters that are not
  white space (no word at all for a blank string). \<open>toLowerCase\<close> on Latin-1.
\<close>

fun words_from :: "string \<Rightarrow> string \<Rightarrow> string list" where
  "words_from cur [] = (if cur = [] then [] else [rev cur])"
| "words_from cur (c # cs) =
     (if is_ws c then (if cur = [] then words_from [] cs else rev cur # words_from [] cs)
      else words_from (c # cur) cs)"

definition words :: "string \<Rightarrow> string list" where
  "words s = words_from [] s"

definition lower_char :: "char \<Rightarrow> char" where
  "lower_char c =
     (let n = (of_char c :: nat) in
      if (65 \<le> n \<and> n \<le> 90) \<or> (192 \<le> n \<and> n \<le> 222 \<and> n \<noteq> 215)
      then char_of (n + 32) else c)"

definition toLowerCase :: "string \<Rightarrow> string" where
  "toLowerCase s = map lower_char s"

text \<open>
  The sort part, on a criteria object with properties \<open>kvs\<close>. A string is split in an
  attribute and a direction; \<open>parts[1] = ...\<close> makes \<open>parts\<close> at least two long;
  \<open>parts[0]\<close> of no words is \<open>undefined\<close>, which as a property name is the text
  \<open>undefined\<close>. In the last test the message reads the variable \<open>direction\<close>, which is
  declared nowhere: evaluating it throws a \<open>ReferenceError\<close> before any \<open>Error\<close> is
  built.
\<close>

definition normalize_sort :: "(string \<times> jsval) list \<Rightarrow> criteria_result" where
  "normalize_sort kvs =
     (let sort = get (JObj kvs) ''sort'' in
      if \<not> truthy sort then Criterion (JObj kvs)
      else
        (case sort of
           JStr str \<Rightarrow>
             (let parts = words str;
                  p0 = (case parts of [] \<Rightarrow> ''undefined'' | a # _ \<Rightarrow> a);
                  p1 = (case parts of _ # b # _ \<Rightarrow> toLowerCase b | _ \<Rightarrow> ''asc'');
                  len = max 2 (length parts)
              in if len \<noteq> 2 \<or> (p1 \<noteq> ''asc'' \<and> p1 \<noteq> ''desc'')
                 then Raise (Error (''Invalid sort criteria :: '' @ str))
                 else Criterion (JObj (put kvs ''sort''
                        (JObj [(p0, JNum (Fin (if p1 = ''asc'' then 1 else - 1)))]))))
         | _ \<Rightarrow>
             if \<not> isObject sort then Raise (ReferenceError ''direction is not defined'')
             else Criterion (JObj kvs)))"

definition operational :: "jsval \<Rightarrow> bool" where
  "operational c =
     (truthy (get c ''where'') \<or> truthy (get c ''limit'') \<or> truthy (get c ''skip'')
      \<or> truthy (get c ''offset'') \<or> truthy (get c ''order''))"

definition normalizeCriteria :: "jsval \<Rightarrow> criteria_result" where
  "normalizeCriteria criteria =
     (if \<not> truthy criteria then Criterion (JObj [(''where'', JNull)])
      else
        let c1 = strip_undefined criteria;
            c2 = (if (isFinite c1 \<or> isString c1) \<and> positive (toNumber c1)
                  then JObj [(''id'', JNum (toNumber c1))] else c1)
        in if \<not> isObject c2 then Invalid_criteria c2
           else
             let c3 = (if \<not> operational c2 then JObj [(''where'', c2)] else c2)
             in (case numberize_where c3 of
                   JObj kvs \<Rightarrow> normalize_sort kvs
                 | c4 \<Rightarrow> Criterion c4))"

section \<open>The adapter facade\<close>

text \<open>
  Every operation of the facade ends in a callback, and so does every method of the
  adapter. An adapter method is modelled by what it answers: it calls the callback it
  is given once, before it returns, with the answer. The facade's own code is kept in
  continuation-passing style, as it is written: an operation takes the caller's
  callback and yields the trace of what happened, in order, and the exception that
  ended it, if one did. A \<open>throw\<close> ends the run: nothing after it happens.
\<close>

datatype event =
    Adapter string "jsval list"
  | Callback "jsval list"

type_synonym outcome = "event list \<times> js_exception option"

definition emit :: "event \<Rightarrow> outcome" where
  "emit e = ([e], None)"

definition throw :: "js_exception \<Rightarrow> outcome" where
  "throw x = ([], Some x)"

definition nothing :: outcome where
  "nothing = ([], None)"

definition then_do :: "outcome \<Rightarrow> outcome \<Rightarrow> outcome" where
  "then_do a b = (case snd a of Some x \<Rightarrow> a | None \<Rightarrow> (fst a @ fst b, snd b))"

text \<open>The caller's callback: it is recorded with its arguments and returns.\<close>

definition caller :: "jsval list \<Rightarrow> outcome" where
  "caller args = emit (Callback args)"

fun is_callback :: "event \<Rightarrow> bool" where
  "is_callback (Callback _) = True"
| "is_callback _ = False"

definition callbacks :: "outcome \<Rightarrow> nat" where
  "callbacks r = length (filter is_callback (fst r))"

definition adapter_calls :: "outcome \<Rightarrow> event list" where
  "adapter_calls r = filter (\<lambda>e. \<not> is_callback e) (fst r)"

text \<open>
  The adapter: each method may be missing. \<open>find\<close> answers \<open>(err, models)\<close> with an
  array of models, or \<open>(err)\<close> alone; \<open>describe\<close> answers \<open>(err, attributes)\<close> with
  a plain object of attribute definitions, or without one when the collection does
  not exist; the schema methods answer \<open>(err)\<close>.
\<close>

type_synonym attributes = "(string \<times> jsval) list"

record adapter =
  adapter_find :: "(string \<Rightarrow> jsval \<Rightarrow> jsval \<times> jsval list option) option"
  adapter_describe :: "(string \<Rightarrow> jsval \<times> attributes option) option"
  adapter_alter :: "(string \<Rightarrow> attributes \<Rightarrow> jsval list) option"
  adapter_addAttribute :: "(string \<Rightarrow> string \<Rightarrow> jsval \<Rightarrow> jsval) option"
  adapter_removeAttribute :: "(string \<Rightarrow> string \<Rightarrow> jsval \<Rightarrow> jsval) option"

subsection \<open>findAll and find\<close>

text \<open>
  What \<open>findAll\<close> passes to its callback: \<open>(err, models)\<close> as the adapter answered,
  the single string \<open>"No find() method defined in adapter!"\<close>, or the single error
  string of \<open>normalizeCriteria\<close>.
\<close>

datatype find_args =
    Find_args jsval "jsval list option"
  | Invalid_args jsval

fun models_of :: "find_args \<Rightarrow> jsval list option" where
  "models_of (Find_args err models) = models"
| "models_of (Invalid_args c) = None"

definition findAll :: "adapter \<Rightarrow> string \<Rightarrow> jsval \<Rightarrow> (find_args \<Rightarrow> outcome) \<Rightarrow> outcome" where
  "findAll adapter collectionName criteria cb =
     (case adapter_find adapter of
        None \<Rightarrow> cb (Find_args (JStr ''No find() method defined in adapter!'') None)
      | Some f \<Rightarrow>
          (case normalizeCriteria criteria of
             Raise x \<Rightarrow> throw x
           | Invalid_criteria c \<Rightarrow> cb (Invalid_args c)
           | Criterion c \<Rightarrow>
               then_do (emit (Adapter ''find'' [JStr collectionName, c]))
                 (cb (case f collectionName c of (err, models) \<Rightarrow> Find_args err models))))"

text \<open>
  \<open>find\<close> reads \<open>models.length\<close> whatever \<open>err\<close> is: when \<open>models\<close> is
  \<open>undefined\<close> that read throws a \<open>TypeError\<close>.
\<close>

definition find_model :: "adapter \<Rightarrow> string \<Rightarrow> jsval \<Rightarrow> (jsval list \<Rightarrow> outcome) \<Rightarrow> outcome" where
  "find_model adapter collectionName criteria cb =
     (let criteria' = (if \<not> truthy criteria then JObj [(''limit'', JNum (Fin 1))] else criteria)
      in findAll adapter collectionName criteria'
           (\<lambda>r. case models_of r of
                  None \<Rightarrow> throw (TypeError ''Cannot read property length of undefined'')
                | Some models \<Rightarrow>
                    if length models < 1 then cb []
                    else if length models > 1
                    then cb [JStr (''More than one '' @ collectionName @ '' returned!'')]
                    else cb [JNull, models ! 0]))"

subsection \<open>describe and alter\<close>

definition describe :: "adapter \<Rightarrow> string \<Rightarrow> (jsval \<times> attributes option \<Rightarrow> outcome) \<Rightarrow> outcome" where
  "describe adapter collectionName cb =
     (case adapter_describe adapter of
        Some f \<Rightarrow> then_do (emit (Adapter ''describe'' [JStr collectionName])) (cb (f collectionName))
      | None \<Rightarrow> cb (JUndefined, None))"

text \<open>
  \<open>_.isEqual\<close>: deep equality. Two plain objects are equal when they have as many
  properties and every property of the first is in the second with an equal value;
  two arrays when they are equal element by element; two dates when their time
  values are equal numbers; anything else when it is the same value.
\<close>

fun isEqual :: "jsval \<Rightarrow> jsval \<Rightarrow> bool"
  and props_equal :: "(string \<times> jsval) list \<Rightarrow> (string \<times> jsval) list \<Rightarrow> bool"
  and elems_equal :: "jsval list \<Rightarrow> jsval list \<Rightarrow> bool" where
  "isEqual (JObj xs) (JObj ys) = (length xs = length ys \<and> props_equal xs ys)"
| "isEqual (JArr xs) (JArr ys) = elems_equal xs ys"
| "isEqual (JDate a) (JDate b) = (a = b \<and> a \<noteq> NaN)"
| "isEqual a b = (a = b)"
| "props_equal [] ys = True"
| "props_equal (kv # xs) ys =
     (case map_of ys (fst kv) of
        None \<Rightarrow> False
      | Some w \<Rightarrow> isEqual (snd kv) w \<and> props_equal xs ys)"
| "elems_equal [] [] = True"
| "elems_equal (x # xs) (y # ys) = (isEqual x y \<and> elems_equal xs ys)"
| "elems_equal _ _ = False"

text \<open>
  The schema diff of \<open>alter\<close>. The first loop marks the attributes of the new
  definition that the collection does not have. The second loop goes through the
  attributes the collection has: one that the new definition lacks is deprecated;
  and one that is not equal to its new definition is deprecated and put in
  \<open>newAttributes\<close>, with the definition the collection has. The two tests are two
  \<open>if\<close> statements, not an \<open>if\<close> and its \<open>else\<close>.
\<close>

definition checkAttribute :: "attributes \<Rightarrow> attributes \<Rightarrow> string \<times> jsval \<Rightarrow> attributes" where
  "checkAttribute originalAttributes newAttributes kv =
     (if \<not> truthy (get (JObj originalAttributes) (fst kv))
      then put newAttributes (fst kv) (snd kv) else newAttributes)"

definition checkOriginal ::
  "attributes \<Rightarrow> attributes \<times> attributes \<Rightarrow> string \<times> jsval \<Rightarrow> attributes \<times> attributes" where
  "checkOriginal attributes acc kv =
     (let newAttributes = fst acc;
          deprecatedAttributes = snd acc;
          attrName = fst kv;
          attribute = snd kv;
          deprecated1 = (if \<not> truthy (get (JObj attributes) attrName)
                         then put deprecatedAttributes attrName attribute
                         else deprecatedAttributes)
      in if \<not> isEqual (get (JObj attributes) attrName) attribute
         then (put newAttributes attrName attribute, put deprecated1 attrName attribute)
         else (newAttributes, deprecated1))"

definition alter_diff :: "attributes \<Rightarrow> attributes \<Rightarrow> attributes \<times> attributes" where
  "alter_diff originalAttributes attributes =
     foldl (checkOriginal attributes)
       (foldl (checkAttribute originalAttributes) [] attributes, [])
       originalAttributes"

text \<open>
  \<open>async.forEach(arr, iterator, callback)\<close>: with nothing to do it calls
  \<open>callback()\<close>; otherwise it starts the iterator on every item in order, counts the
  items that completed without an error and calls \<open>callback(null)\<close> when all have;
  the first error goes to \<open>callback(err)\<close>, after which the callback is replaced by
  one that does nothing. An iterator here is an adapter call: its events, and the
  error it answers.
\<close>

fun forEach_loop ::
  "'a list \<Rightarrow> ('a \<Rightarrow> event \<times> jsval) \<Rightarrow> nat \<Rightarrow> nat \<Rightarrow> bool \<Rightarrow> (jsval list \<Rightarrow> outcome) \<Rightarrow> outcome" where
  "forEach_loop [] iterator completed n live callback = nothing"
| "forEach_loop (x # xs) iterator completed n live callback =
     then_do (emit (fst (iterator x)))
       (if truthy (snd (iterator x))
        then then_do (if live then callback [snd (iterator x)] else nothing)
               (forEach_loop xs iterator completed n False callback)
        else then_do (if completed + 1 = n \<and> live then callback [JNull] else nothing)
               (forEach_loop xs iterator (completed + 1) n live callback))"

definition forEach ::
  "'a list \<Rightarrow> ('a \<Rightarrow> event \<times> jsval) \<Rightarrow> (jsval list \<Rightarrow> outcome) \<Rightarrow> outcome" where
  "forEach arr iterator callback =
     (if arr = [] then callback [] else forEach_loop arr iterator 0 (length arr) True callback)"

text \<open>
  \<open>alter\<close>. With \<open>adapter.alter\<close> the call is handed over. With \<open>addAttribute\<close> and
  \<open>removeAttribute\<close> the schema is described and diffed; in \<open>afterDescribe\<close> an error
  is passed to \<open>done\<close>, a name that is bound nowhere in that scope, so evaluating it
  throws a \<open>ReferenceError\<close>; reading a property of the missing attributes of a
  collection that does not exist throws a \<open>TypeError\<close>; an error of the add phase is
  thrown. Otherwise nothing is done and the callback is called.
\<close>

definition arg0 :: "jsval list \<Rightarrow> jsval" where
  "arg0 args = (case args of [] \<Rightarrow> JUndefined | a # _ \<Rightarrow> a)"

definition diff_described :: "attributes option \<Rightarrow> attributes \<Rightarrow> js_exception + attributes \<times> attributes" where
  "diff_described described attributes =
     (case described of
        None \<Rightarrow>
          if attributes \<noteq> [] then Inl (TypeError ''Cannot read property of undefined'')
          else Inr ([], [])
      | Some originalAttributes \<Rightarrow> Inr (alter_diff originalAttributes attributes))"

definition attribute_calls ::
  "string \<Rightarrow> (string \<Rightarrow> string \<Rightarrow> jsval \<Rightarrow> jsval) \<Rightarrow> string \<Rightarrow> attributes \<Rightarrow> string \<Rightarrow> event \<times> jsval" where
  "attribute_calls method f collectionName attrs attrName =
     (Adapter method [JStr collectionName, JStr attrName, get (JObj attrs) attrName],
      f collectionName attrName (get (JObj attrs) attrName))"

definition alter :: "adapter \<Rightarrow> string \<Rightarrow> attributes \<Rightarrow> (jsval list \<Rightarrow> outcome) \<Rightarrow> outcome" where
  "alter adapter collectionName attributes cb =
     (case adapter_alter adapter of
        Some f \<Rightarrow>
          then_do (emit (Adapter ''alter'' [JStr collectionName, JObj attributes]))
            (cb (f collectionName attributes))
      | None \<Rightarrow>
          (case (adapter_addAttribute adapter, adapter_removeAttribute adapter) of
             (Some addAttribute, Some removeAttribute) \<Rightarrow>
               describe adapter collectionName
                 (\<lambda>(err, described).
                    if truthy err then throw (ReferenceError ''done is not defined'')
                    else
                      (case diff_described described attributes of
                         Inl x \<Rightarrow> throw x
                       | Inr (newAttributes, deprecatedAttributes) \<Rightarrow>
                           forEach (map fst newAttributes)
                             (attribute_calls ''addAttribute'' addAttribute collectionName
                                newAttributes)
                             (\<lambda>args.
                                if truthy (arg0 args) then throw (Thrown (arg0 args))
                                else forEach (map fst deprecatedAttributes)
                                       (attribute_calls ''removeAttribute'' removeAttribute
                                          collectionName deprecatedAttributes)
                                       cb)))
           | _ \<Rightarrow> cb []))"

subsection \<open>create\<close>

text \<open>
  \<open>create\<close> writes into the object it is given. To tell an object from a copy of it,
  objects live in a store, \<open>values\<close> is the address of the caller's object, and the
  adapter's \<open>create\<close> is called with that address and the store as it is at the
  call. \<open>new Date()\<close> reads the clock, once for each of the two fields; the two
  readings are parameters. The adapter's \<open>create\<close> may write to the store, and
  answers with the arguments of the callback. A run of \<open>create\<close> yields the store
  after the call and the trace; the call of the adapter is recorded in the trace with
  the contents the object has when it is handed over.
\<close>

type_synonym address = nat

type_synonym store = "address \<Rightarrow> (string \<times> jsval) list"

record create_run =
  final_store :: store
  result :: outcome

definition stamp :: "jsval \<Rightarrow> string \<Rightarrow> int \<Rightarrow> address \<Rightarrow> store \<Rightarrow> store" where
  "stamp enabled field now values st =
     (if truthy enabled then st(values := put (st values) field (JDate (Fin (of_int now))))
      else st)"

definition create ::
  "(string \<Rightarrow> address \<Rightarrow> store \<Rightarrow> store \<times> jsval list) option \<Rightarrow> jsval \<Rightarrow> int \<Rightarrow> int \<Rightarrow> store
     \<Rightarrow> string \<Rightarrow> address \<Rightarrow> (jsval list \<Rightarrow> outcome) \<Rightarrow> create_run" where
  "create adapter_create config now1 now2 st collectionName values cb =
     (case adapter_create of
        None \<Rightarrow>
          \<lparr>final_store = st,
           result = cb [JStr ''No create() method defined in adapter!'']\<rparr>
      | Some f \<Rightarrow>
          (let st1 = stamp (get config ''createdAt'') ''createdAt'' now1 values st;
               st2 = stamp (get config ''updatedAt'') ''updatedAt'' now2 values st1
           in \<lparr>final_store = fst (f collectionName values st2),
               result =
                 then_do (emit (Adapter ''create'' [JStr collectionName, JObj (st2 values)]))
                   (cb (snd (f collectionName values st2)))\<rparr>))"

section \<open>The lock manager\<close>

text \<open>
  A lock entry as the transaction collection returns it: the \<open>id\<close> the adapter
  assigned on insertion (an integer), the transaction name, the uuid, and whether an
  \<open>afterUnlock\<close> function was given.
\<close>

record lock =
  lock_id :: int
  lock_name :: string
  lock_uuid :: string
  has_afterUnlock :: bool

definition MAX_INTEGER :: int where
  "MAX_INTEGER = 4294967295"

definition next_step :: "lock \<Rightarrow> lock option \<Rightarrow> lock \<Rightarrow> lock option" where
  "next_step currentLock nextLock lck =
     (if lock_name lck \<noteq> lock_name currentLock then nextLock
      else if lock_uuid lck = lock_uuid currentLock then nextLock
      else
        let minId = (case nextLock of Some n \<Rightarrow> lock_id n | None \<Rightarrow> MAX_INTEGER)
        in if lock_id lck < minId then Some lck else nextLock)"

definition getNextLock :: "lock list \<Rightarrow> lock \<Rightarrow> lock option" where
  "getNextLock locks currentLock = foldl (next_step currentLock) None locks"






section \<open>Example adapters and lock entries\<close>

text \<open>
  An adapter that only finds, with a fixed answer; an adapter that only describes,
  adds and removes attributes, with fixed answers; a lock entry with an
  \<open>afterUnlock\<close> function.
\<close>

definition find_adapter :: "jsval \<times> jsval list option \<Rightarrow> adapter" where
  "find_adapter answer =
     \<lparr>adapter_find = Some (\<lambda>collectionName criteria. answer), adapter_describe = None,
      adapter_alter = None, adapter_addAttribute = None, adapter_removeAttribute = None\<rparr>"

definition schema_adapter :: "jsval \<times> attributes option \<Rightarrow> jsval \<Rightarrow> jsval \<Rightarrow> adapter" where
  "schema_adapter described add_answer remove_answer =
     \<lparr>adapter_find = None, adapter_describe = Some (\<lambda>collectionName. described),
      adapter_alter = None,
      adapter_addAttribute = Some (\<lambda>collectionName attrName attribute. add_answer),
      adapter_removeAttribute = Some (\<lambda>collectionName attrName attribute. remove_answer)\<rparr>"

definition user_lock :: "int \<Rightarrow> string \<Rightarrow> string \<Rightarrow> lock" where
  "user_lock i n u = \<lparr>lock_id = i, lock_name = n, lock_uuid = u, has_afterUnlock = True\<rparr>"

text \<open>
  An adapter \<open>create\<close> that leaves the store as it is and answers with the object it
  was handed; a configuration with both timestamps and one with \<open>createdAt\<close> only; a
  store where every address holds \<open>{ name: "x" }\<close>.
\<close>

definition echo_create :: "string \<Rightarrow> address \<Rightarrow> store \<Rightarrow> store \<times> jsval list" where
  "echo_create collectionName values st = (st, [JNull, JObj (st values)])"

definition both_stamps :: jsval where
  "both_stamps = JObj [(''createdAt'', JBool True), (''updatedAt'', JBool True)]"

definition createdAt_only :: jsval where
  "createdAt_only = JObj [(''createdAt'', JBool True)]"

definition named_x :: store where
  "named_x = (\<lambda>a. [(''name'', JStr ''x'')])"

text \<open>The entries that may follow \<open>currentLock\<close>: same name, another uuid.\<close>

definition candidate :: "lock \<Rightarrow> lock \<Rightarrow> bool" where
  "candidate currentLock l =
     (lock_name l = lock_name currentLock \<and> lock_uuid l \<noteq> lock_uuid currentLock)"

section \<open>Properties\<close>

subsection \<open>Auxiliary facts\<close>

lemma then_do_emit: "then_do (emit e) r = (e # fst r, snd r)"
  by (simp add: then_do_def emit_def)

lemma map_of_put: "map_of (put kvs k v) = (map_of kvs)(k \<mapsto> v)"
  by (induction kvs) auto

text \<open>
  What the scan of \<open>getNextLock\<close> has found after any list of entries: nothing, and
  then no candidate has an id below \<open>MAX_INTEGER\<close>; or a candidate below
  \<open>MAX_INTEGER\<close> whose id no candidate undercuts.
\<close>

lemma getNextLock_scan:
  "(case getNextLock locks cur of
      None \<Rightarrow> \<forall>c\<in>set locks. candidate cur c \<longrightarrow> MAX_INTEGER \<le> lock_id c
    | Some l \<Rightarrow> l \<in> set locks \<and> candidate cur l \<and> lock_id l < MAX_INTEGER
               \<and> (\<forall>c\<in>set locks. candidate cur c \<longrightarrow> lock_id l \<le> lock_id c))"
proof (induction locks rule: rev_induct)
  case Nil
  then show ?case by (simp add: getNextLock_def)
next
  case (snoc x xs)
  then show ?case
    by (auto simp: getNextLock_def next_step_def candidate_def Let_def
             split: option.splits if_splits)
qed

subsection \<open>Errors and the callback\<close>

text \<open>
  C2. Every operation of the facade calls its callback exactly once, also when the
  adapter reports an error. The code does not: when the adapter's \<open>find\<close> answers
  with an error and no models, \<open>find\<close> throws a \<open>TypeError\<close> and its callback is
  never called; when \<open>describe\<close> answers with an error, \<open>alter\<close> throws a
  \<open>ReferenceError\<close>; when \<open>addAttribute\<close> answers with an error, \<open>alter\<close> throws
  that error. In all three runs the callback is called zero times.
\<close>

theorem error_paths_never_call_back:
  "find_model (find_adapter (JStr ''boom'', None)) ''user'' (JNum (Fin 1)) caller
     = ([Adapter ''find'' [JStr ''user'', JObj [(''where'', JObj [(''id'', JNum (Fin 1))])]]],
        Some (TypeError ''Cannot read property length of undefined''))
   \<and> callbacks (find_model (find_adapter (JStr ''boom'', None)) ''user'' (JNum (Fin 1)) caller) = 0
   \<and> alter (schema_adapter (JStr ''boom'', None) JNull JNull) ''user''
        [(''a'', JStr ''string'')] caller
     = ([Adapter ''describe'' [JStr ''user'']], Some (ReferenceError ''done is not defined''))
   \<and> alter (schema_adapter (JNull, Some []) (JStr ''boom'') JNull) ''user''
        [(''a'', JStr ''string'')] caller
     = ([Adapter ''describe'' [JStr ''user''],
         Adapter ''addAttribute'' [JStr ''user'', JStr ''a'', JStr ''string'']],
        Some (Thrown (JStr ''boom'')))"
  by code_simp

subsection \<open>The schema diff\<close>

text \<open>
  C3. With current attributes \<open>{ a: string, b: int }\<close> and target attributes
  \<open>{ a: string, c: bool }\<close>, \<open>alter\<close> should add \<open>c\<close> once and remove \<open>b\<close> once,
  and not add \<open>b\<close> again. The code calls \<open>addAttribute\<close> twice: for \<open>c\<close>, and for
  \<open>b\<close> with the definition the collection has, since \<open>b\<close> is not equal to its
  missing new definition; then it removes \<open>b\<close>.
\<close>

theorem alter_example_adds_b_again:
  "adapter_calls
     (alter (schema_adapter (JNull, Some [(''a'', JStr ''string''), (''b'', JStr ''int'')])
               JNull JNull)
        ''user'' [(''a'', JStr ''string''), (''c'', JStr ''bool'')] caller)
   = [Adapter ''describe'' [JStr ''user''],
      Adapter ''addAttribute'' [JStr ''user'', JStr ''c'', JStr ''bool''],
      Adapter ''addAttribute'' [JStr ''user'', JStr ''b'', JStr ''int''],
      Adapter ''removeAttribute'' [JStr ''user'', JStr ''b'', JStr ''int'']]"
  by code_simp

subsection \<open>The criteria normalizer\<close>

text \<open>
  C4. Normalizing the result of a normalization should return it unchanged, also for
  \<open>null\<close>. The code normalizes \<open>null\<close> to \<open>{ where: null }\<close>, and normalizes that
  to \<open>{ where: { where: null } }\<close>: a \<open>where\<close> that holds \<open>null\<close> does not count
  as an operational key, so the object is wrapped once more.
\<close>

theorem normalize_null_twice:
  "normalizeCriteria JNull = Criterion (JObj [(''where'', JNull)])
   \<and> normalizeCriteria (JObj [(''where'', JNull)])
     = Criterion (JObj [(''where'', JObj [(''where'', JNull)])])"
  by code_simp

text \<open>
  C7, as stated: \<open>normalizeCriteria\<close> of \<open>{ limit: 10 }\<close> is
  \<open>{ where: null, limit: 10 }\<close>. It is not: the result equals no object with a
  \<open>where\<close> property.
\<close>

theorem limit_only_counterexample:
  "\<not> (\<exists>c. normalizeCriteria (JObj [(''limit'', JNum (Fin 10))]) = Criterion c
          \<and> isEqual c (JObj [(''where'', JNull), (''limit'', JNum (Fin 10))]))"
proof -
  have "normalizeCriteria (JObj [(''limit'', JNum (Fin 10))])
          = Criterion (JObj [(''limit'', JNum (Fin 10))])"
    by code_simp
  moreover have "\<not> isEqual (JObj [(''limit'', JNum (Fin 10))])
                    (JObj [(''where'', JNull), (''limit'', JNum (Fin 10))])"
    by simp
  ultimately show ?thesis by simp
qed

text \<open>
  C7, amended: \<open>normalizeCriteria\<close> of \<open>{ limit: 10 }\<close> is exactly \<open>{ limit: 10 }\<close>.
  The mapping is returned as it is, not wrapped in a \<open>where\<close> clause; it has no
  \<open>where\<close> property, so reading \<open>where\<close> from the result gives \<open>undefined\<close>.
\<close>

theorem limit_only_preserved:
  "normalizeCriteria (JObj [(''limit'', JNum (Fin 10))])
     = Criterion (JObj [(''limit'', JNum (Fin 10))])
   \<and> get (JObj [(''limit'', JNum (Fin 10))]) ''where'' = JUndefined
   \<and> get (JObj [(''limit'', JNum (Fin 10))]) ''limit'' = JNum (Fin 10)"
  by code_simp

text \<open>
  C8. A \<open>where\<close> value that does not parse as a nonzero finite number should be left
  unchanged. The code tests \<open>Math.pow(+value, 2) > 0\<close>, which also holds for an
  infinity: the string \<open>"Infinity"\<close> is replaced by the number \<open>Infinity\<close>.
\<close>

theorem infinity_string_replaced:
  "normalizeCriteria (JObj [(''where'', JObj [(''a'', JStr ''Infinity'')])])
     = Criterion (JObj [(''where'', JObj [(''a'', JNum PosInf)])])"
  by code_simp

subsection \<open>find\<close>

text \<open>
  C5. When the adapter has a \<open>find\<close>, the criteria (or \<open>{ limit: 1 }\<close> when none are
  given) normalize to a criterion, and the adapter answers with an array of models,
  \<open>find\<close> calls its callback exactly once: with no argument when the array is empty,
  with \<open>(null, record)\<close> when it holds one record, and with the error
  \<open>"More than one <name> returned!"\<close> when it holds more than one. It never passes on
  one record out of several.
\<close>

theorem find_cardinality:
  assumes "adapter_find adapter = Some f"
    and "normalizeCriteria (if \<not> truthy criteria then JObj [(''limit'', JNum (Fin 1))] else criteria)
           = Criterion c"
    and "f collectionName c = (err, Some models)"
  shows "(models = [] \<longrightarrow>
            find_model adapter collectionName criteria caller
              = ([Adapter ''find'' [JStr collectionName, c], Callback []], None))
       \<and> (\<forall>m. models = [m] \<longrightarrow>
            find_model adapter collectionName criteria caller
              = ([Adapter ''find'' [JStr collectionName, c], Callback [JNull, m]], None))
       \<and> (1 < length models \<longrightarrow>
            find_model adapter collectionName criteria caller
              = ([Adapter ''find'' [JStr collectionName, c],
                  Callback [JStr (''More than one '' @ collectionName @ '' returned!'')]], None))
       \<and> callbacks (find_model adapter collectionName criteria caller) = 1"
proof -
  let ?answer = "if length models < 1 then caller []
                 else if length models > 1
                 then caller [JStr (''More than one '' @ collectionName @ '' returned!'')]
                 else caller [JNull, models ! 0]"
  have run: "find_model adapter collectionName criteria caller
               = (Adapter ''find'' [JStr collectionName, c] # fst ?answer, snd ?answer)"
    unfolding find_model_def Let_def findAll_def
    using assms by (simp add: then_do_emit)
  show ?thesis
    unfolding run by (auto simp: caller_def emit_def callbacks_def)
qed

theorem find_cardinality_witness:
  "find_model (find_adapter (JNull, Some [])) ''user'' JNull caller
     = ([Adapter ''find'' [JStr ''user'', JObj [(''limit'', JNum (Fin 1))]], Callback []], None)
   \<and> find_model (find_adapter (JNull, Some [JStr ''m''])) ''user'' JNull caller
     = ([Adapter ''find'' [JStr ''user'', JObj [(''limit'', JNum (Fin 1))]],
         Callback [JNull, JStr ''m'']], None)
   \<and> find_model (find_adapter (JNull, Some [JStr ''m'', JStr ''n''])) ''user'' JNull caller
     = ([Adapter ''find'' [JStr ''user'', JObj [(''limit'', JNum (Fin 1))]],
         Callback [JStr ''More than one user returned!'']], None)"
proof -
  have n: "normalizeCriteria (if \<not> truthy JNull then JObj [(''limit'', JNum (Fin 1))] else JNull)
             = Criterion (JObj [(''limit'', JNum (Fin 1))])"
    by code_simp
  have a: "adapter_find (find_adapter r) = Some (\<lambda>collectionName criteria. r)" for r
    by (simp add: find_adapter_def)
  have r: "(\<lambda>collectionName criteria. (JNull, Some ms)) ''user'' (JObj [(''limit'', JNum (Fin 1))])
             = (JNull, Some ms)" for ms :: "jsval list"
    by simp
  show ?thesis
    using find_cardinality [OF a n r, of "[]"]
      find_cardinality [OF a n r, of "[JStr ''m'']"]
      find_cardinality [OF a n r, of "[JStr ''m'', JStr ''n'']"]
    by simp
qed

subsection \<open>create\<close>

text \<open>
  C9, as stated: when \<open>config.createdAt\<close> or \<open>config.updatedAt\<close> is enabled,
  \<open>create\<close> writes the \<open>createdAt\<close> and \<open>updatedAt\<close> fields into the caller's
  object. It does not write both when one is enabled: with \<open>createdAt\<close> alone the
  object handed to the adapter, and the caller's object after the call, has
  \<open>createdAt\<close> and no \<open>updatedAt\<close>. And with an enabled flag but no
  \<open>adapter.create\<close>, nothing is written at all.
\<close>

theorem create_one_flag_counterexample:
  "truthy (get createdAt_only ''createdAt'')
   \<and> result (create (Some echo_create) createdAt_only 1000 1001 named_x ''user'' 7 caller)
     = ([Adapter ''create''
           [JStr ''user'', JObj [(''name'', JStr ''x''), (''createdAt'', JDate (Fin 1000))]],
         Callback [JNull, JObj [(''name'', JStr ''x''), (''createdAt'', JDate (Fin 1000))]]],
        None)
   \<and> get (JObj (final_store
         (create (Some echo_create) createdAt_only 1000 1001 named_x ''user'' 7 caller) 7))
       ''updatedAt'' = JUndefined
   \<and> final_store (create None createdAt_only 1000 1001 named_x ''user'' 7 caller) 7
     = [(''name'', JStr ''x'')]"
  by (simp add: create_def stamp_def createdAt_only_def echo_create_def named_x_def
        then_do_def emit_def caller_def)

text \<open>
  C9, amended. When the adapter has a \<open>create\<close>, that method is called with the very
  address the caller passed and with a store in which the object at that address
  holds \<open>createdAt\<close> if \<open>config.createdAt\<close> is enabled and \<open>updatedAt\<close> if
  \<open>config.updatedAt\<close> is enabled, each with the clock reading of its assignment;
  every other field of the object and every other object is as it was. The store after
  the call is the store the adapter leaves, and the callback gets the adapter's answer:
  if the adapter leaves the object alone, the caller finds the fields on its own
  object. When the adapter has no \<open>create\<close>, the store is untouched and the callback
  gets the error \<open>"No create() method defined in adapter!"\<close>.
\<close>

theorem create_stamps_callers_object:
  "(\<exists>st'.
       final_store (create (Some f) config now1 now2 st collectionName values cb)
         = fst (f collectionName values st')
     \<and> result (create (Some f) config now1 now2 st collectionName values cb)
         = then_do (emit (Adapter ''create'' [JStr collectionName, JObj (st' values)]))
             (cb (snd (f collectionName values st')))
     \<and> (\<forall>a. a \<noteq> values \<longrightarrow> st' a = st a)
     \<and> (\<forall>k. get (JObj (st' values)) k
            = (if k = ''updatedAt'' \<and> truthy (get config ''updatedAt'')
               then JDate (Fin (of_int now2))
               else if k = ''createdAt'' \<and> truthy (get config ''createdAt'')
               then JDate (Fin (of_int now1))
               else get (JObj (st values)) k)))
   \<and> final_store (create None config now1 now2 st collectionName values cb) = st
   \<and> result (create None config now1 now2 st collectionName values cb)
       = cb [JStr ''No create() method defined in adapter!'']"
proof -
  let ?st1 = "stamp (get config ''createdAt'') ''createdAt'' now1 values st"
  let ?st2 = "stamp (get config ''updatedAt'') ''updatedAt'' now2 values ?st1"
  have final: "final_store (create (Some f) config now1 now2 st collectionName values cb)
                 = fst (f collectionName values ?st2)"
    by (simp add: create_def Let_def)
  have trace: "result (create (Some f) config now1 now2 st collectionName values cb)
                 = then_do (emit (Adapter ''create'' [JStr collectionName, JObj (?st2 values)]))
                     (cb (snd (f collectionName values ?st2)))"
    by (simp add: create_def Let_def)
  have others: "\<forall>a. a \<noteq> values \<longrightarrow> ?st2 a = st a"
    by (simp add: stamp_def)
  have fields: "\<forall>k. get (JObj (?st2 values)) k
            = (if k = ''updatedAt'' \<and> truthy (get config ''updatedAt'')
               then JDate (Fin (of_int now2))
               else if k = ''createdAt'' \<and> truthy (get config ''createdAt'')
               then JDate (Fin (of_int now1))
               else get (JObj (st values)) k)"
    by (simp add: stamp_def map_of_put)
  have missing: "final_store (create None config now1 now2 st collectionName values cb) = st
     \<and> result (create None config now1 now2 st collectionName values cb)
         = cb [JStr ''No create() method defined in adapter!'']"
    by (simp add: create_def)
  from final trace others fields missing show ?thesis by blast
qed

theorem create_stamps_callers_object_witness:
  "truthy (get both_stamps ''createdAt'') \<and> truthy (get both_stamps ''updatedAt'')
   \<and> final_store (create (Some echo_create) both_stamps 1000 1001 named_x ''user'' 7 caller) 7
     = [(''name'', JStr ''x''), (''createdAt'', JDate (Fin 1000)),
        (''updatedAt'', JDate (Fin 1001))]
   \<and> final_store (create (Some echo_create) both_stamps 1000 1001 named_x ''user'' 7 caller) 8
     = [(''name'', JStr ''x'')]
   \<and> result (create (Some echo_create) both_stamps 1000 1001 named_x ''user'' 7 caller)
     = ([Adapter ''create''
           [JStr ''user'',
            JObj [(''name'', JStr ''x''), (''createdAt'', JDate (Fin 1000)),
                  (''updatedAt'', JDate (Fin 1001))]],
         Callback
           [JNull,
            JObj [(''name'', JStr ''x''), (''createdAt'', JDate (Fin 1000)),
                  (''updatedAt'', JDate (Fin 1001))]]],
        None)"
  using create_stamps_callers_object
          [of echo_create both_stamps 1000 1001 named_x "''user''" 7 caller]
  by (simp add: create_def stamp_def both_stamps_def echo_create_def named_x_def
        then_do_def emit_def caller_def)

subsection \<open>The lock manager\<close>




text \<open>
  C10. \<open>getNextLock\<close> returns, among the entries with the name of the current lock
  and another uuid, one with the smallest id, and that id is below
  \<open>MAX_INTEGER = 4294967295\<close>; it returns an entry whenever such an entry has an id
  below \<open>MAX_INTEGER\<close>; and when every such entry has an id of \<open>MAX_INTEGER\<close> or
  more, it returns none.
\<close>

theorem getNextLock_smallest_below_MAX_INTEGER:
  "(\<forall>l. getNextLock locks currentLock = Some l \<longrightarrow>
        l \<in> set locks \<and> lock_name l = lock_name currentLock
        \<and> lock_uuid l \<noteq> lock_uuid currentLock \<and> lock_id l < 4294967295
        \<and> (\<forall>c\<in>set locks. lock_name c = lock_name currentLock
               \<and> lock_uuid c \<noteq> lock_uuid currentLock \<longrightarrow> lock_id l \<le> lock_id c))
   \<and> ((\<exists>c\<in>set locks. lock_name c = lock_name currentLock
          \<and> lock_uuid c \<noteq> lock_uuid currentLock \<and> lock_id c < 4294967295)
        \<longrightarrow> getNextLock locks currentLock \<noteq> None)
   \<and> ((\<forall>c\<in>set locks. lock_name c = lock_name currentLock
          \<and> lock_uuid c \<noteq> lock_uuid currentLock \<longrightarrow> 4294967295 \<le> lock_id c)
        \<longrightarrow> getNextLock locks currentLock = None)"
  using getNextLock_scan [of locks currentLock]
  by (cases "getNextLock locks currentLock") (auto simp: candidate_def MAX_INTEGER_def)

theorem getNextLock_smallest_below_MAX_INTEGER_witness:
  "getNextLock [user_lock 7 ''X'' ''u7'', user_lock 1 ''Y'' ''v1'', user_lock 3 ''X'' ''u3'',
                user_lock 2 ''X'' ''u2'', user_lock 5 ''X'' ''u5'']
               (user_lock 2 ''X'' ''u2'') = Some (user_lock 3 ''X'' ''u3'')
   \<and> getNextLock [user_lock 2 ''X'' ''u2'', user_lock 4294967295 ''X'' ''u9'']
               (user_lock 2 ''X'' ''u2'') = None"
  using getNextLock_smallest_below_MAX_INTEGER
          [of "[user_lock 7 ''X'' ''u7'', user_lock 1 ''Y'' ''v1'', user_lock 3 ''X'' ''u3'',
                user_lock 2 ''X'' ''u2'', user_lock 5 ''X'' ''u5'']" "user_lock 2 ''X'' ''u2''"]
        getNextLock_smallest_below_MAX_INTEGER
          [of "[user_lock 2 ''X'' ''u2'', user_lock 4294967295 ''X'' ''u9'']"
              "user_lock 2 ''X'' ''u2''"]
  by (simp add: getNextLock_def next_step_def user_lock_def MAX_INTEGER_def)

end
